theory Spec2Isabelle
  imports Complex_Main "HOL-Library.Sublist"
begin

section \<open>Strings\<close>

text \<open>
  Python strings are modelled as \<open>string\<close> (lists of 8-bit characters, a non-ASCII code
  point being its UTF-8 bytes). Every character the source tests for (letters, digits,
  \<open>-\<close>, \<open>.\<close>, \<open>/\<close>, the backslash, the newline) is ASCII, and no byte of a multi-byte
  sequence is, so the tests give the same answer on bytes as on code points.
\<close>

definition newline :: char where
  "newline = char_of (10::nat)"

definition backslash :: char where
  "backslash = char_of (92::nat)"

text \<open>\<open>s.replace(old, new)\<close>: every non-overlapping occurrence of \<open>old\<close>, found from
  the left, becomes \<open>new\<close>; an empty \<open>old\<close> matches before every character and at the end.\<close>

fun replace_nonempty :: "string \<Rightarrow> string \<Rightarrow> nat \<Rightarrow> string \<Rightarrow> string" where
  "replace_nonempty old new skip [] = []"
| "replace_nonempty old new (Suc k) (c # cs) = replace_nonempty old new k cs"
| "replace_nonempty old new 0 (c # cs) =
     (if prefix old (c # cs) then new @ replace_nonempty old new (length old - 1) cs
      else c # replace_nonempty old new 0 cs)"

definition str_replace :: "string \<Rightarrow> string \<Rightarrow> string \<Rightarrow> string" where
  "str_replace old new s =
     (if old = [] then new @ concat (map (\<lambda>c. c # new) s)
      else replace_nonempty old new 0 s)"

text \<open>\<open>s.lower()\<close> on the ASCII letters. The only code points outside ASCII whose
  lower case is an ASCII letter is the Kelvin sign (lower case \<open>k\<close>); no key of the
  content-type table contains a \<open>k\<close>, so the table lookup below is not affected.\<close>

definition lower_char :: "char \<Rightarrow> char" where
  "lower_char c =
     (if 65 \<le> (of_char c :: nat) \<and> (of_char c :: nat) \<le> 90
      then char_of ((of_char c :: nat) + 32) else c)"

definition str_lower :: "string \<Rightarrow> string" where
  "str_lower s = map lower_char s"

text \<open>\<open>sub in s\<close> for strings.\<close>

fun str_contains :: "string \<Rightarrow> string \<Rightarrow> bool" where
  "str_contains sub [] = (sub = [])"
| "str_contains sub (c # cs) = (prefix sub (c # cs) \<or> str_contains sub cs)"

text \<open>\<open>str(n)\<close> for an integer: decimal digits, a minus sign for a negative number.\<close>

fun str_nat :: "nat \<Rightarrow> string" where
  "str_nat n =
     (if n < 10 then [char_of (48 + n)]
      else str_nat (n div 10) @ [char_of (48 + n mod 10)])"

declare str_nat.simps [simp del]

definition str_int :: "int \<Rightarrow> string" where
  "str_int i = (if i < 0 then CHR ''-'' # str_nat (nat (- i)) else str_nat (nat i))"

section \<open>Regular expressions as \<open>re.match\<close> runs them\<close>

text \<open>
  The part of Python's \<open>re\<close> syntax that the domain pattern uses: the anchors \<open>^\<close> and
  \<open>$\<close>, an escaped literal, and a character class of ranges and single characters
  with a repetition count \<open>{m,n}\<close> (\<open>{m,}\<close> when there is no upper bound; a class written
  without a count is \<open>{1,1}\<close>).
\<close>

datatype class_item = Range char char | Single char

datatype token = Bol | Eol | Lit char | Cls "class_item list" nat "nat option"

fun in_item :: "char \<Rightarrow> class_item \<Rightarrow> bool" where
  "in_item c (Range lo hi) =
     ((of_char lo :: nat) \<le> of_char c \<and> (of_char c :: nat) \<le> of_char hi)"
| "in_item c (Single d) = (c = d)"

definition in_class :: "class_item list \<Rightarrow> char \<Rightarrow> bool" where
  "in_class items c = list_ex (in_item c) items"

text \<open>
  \<open>match_here ts pos s\<close>: the pattern \<open>ts\<close> matches at position \<open>pos\<close> of the subject,
  whose remainder from there is \<open>s\<close>. A repetition tries the longest run first and backs
  off one character at a time, as the backtracking matcher does. Without \<open>re.MULTILINE\<close>,
  \<open>^\<close> holds at position 0 only, and \<open>$\<close> holds at the end of the subject and just before a
  newline that is its last character. \<open>re.match\<close> does not ask that the whole subject is
  consumed; only \<open>$\<close> does.
\<close>

fun match_here :: "token list \<Rightarrow> nat \<Rightarrow> string \<Rightarrow> bool" where
  "match_here [] pos s = True"
| "match_here (Bol # ts) pos s = (pos = 0 \<and> match_here ts pos s)"
| "match_here (Eol # ts) pos s = ((s = [] \<or> s = [newline]) \<and> match_here ts pos s)"
| "match_here (Lit c # ts) pos s =
     (case s of [] \<Rightarrow> False | x # xs \<Rightarrow> x = c \<and> match_here ts (pos + 1) xs)"
| "match_here (Cls items lo hi # ts) pos s =
     (let run = length (takeWhile (in_class items) s);
          most = (case hi of None \<Rightarrow> run | Some h \<Rightarrow> min run h)
      in list_ex (\<lambda>k. match_here ts (pos + k) (drop k s)) (rev [lo ..< Suc most]))"

definition re_match :: "token list \<Rightarrow> string \<Rightarrow> bool" where
  "re_match pattern s = match_here pattern 0 s"

section \<open>The pure helpers of the deployer\<close>

definition alnum :: "class_item list" where
  "alnum = [Range CHR ''a'' CHR ''z'', Range CHR ''A'' CHR ''Z'', Range CHR ''0'' CHR ''9'']"

definition alnum_hyphen :: "class_item list" where
  "alnum_hyphen =
     [Range CHR ''a'' CHR ''z'', Range CHR ''A'' CHR ''Z'', Range CHR ''0'' CHR ''9'',
      Single CHR ''-'']"

definition alpha :: "class_item list" where
  "alpha = [Range CHR ''a'' CHR ''z'', Range CHR ''A'' CHR ''Z'']"

text \<open>The pattern of \<open>validate_domain\<close>:
  \<^verbatim>\<open>^[a-zA-Z0-9][a-zA-Z0-9-]{1,61}[a-zA-Z0-9]\.[a-zA-Z]{2,}$\<close>\<close>

definition domain_pattern :: "token list" where
  "domain_pattern =
     [Bol, Cls alnum 1 (Some 1), Cls alnum_hyphen 1 (Some 61), Cls alnum 1 (Some 1),
      Lit CHR ''.'', Cls alpha 2 None, Eol]"

text \<open>\<open>get_stack_name\<close>\<close>

definition get_stack_name :: "string \<Rightarrow> string" where
  "get_stack_name domain = ''website-'' @ str_replace ''.'' ''-'' domain"

text \<open>
  \<open>os.path.splitext(p)[1]\<close>: the extension starts at the last dot of the last path
  component, unless that component has only dots before it (a leading-dot name has no
  extension).
\<close>

fun rfind :: "char \<Rightarrow> string \<Rightarrow> int" where
  "rfind c [] = -1"
| "rfind c (x # xs) =
     (let r = rfind c xs in if r \<ge> 0 then r + 1 else if x = c then 0 else -1)"

definition splitext_ext :: "string \<Rightarrow> string" where
  "splitext_ext p =
     (let sepIndex = rfind CHR ''/'' p; dotIndex = rfind CHR ''.'' p
      in if dotIndex > sepIndex \<and>
            list_ex (\<lambda>c. c \<noteq> CHR ''.'') (take (nat (dotIndex - (sepIndex + 1))) (drop (nat (sepIndex + 1)) p))
         then drop (nat dotIndex) p else [])"

definition content_types :: "(string \<times> string) list" where
  "content_types =
     [(''.html'', ''text/html''),
      (''.css'', ''text/css''),
      (''.js'', ''application/javascript''),
      (''.json'', ''application/json''),
      (''.png'', ''image/png''),
      (''.jpg'', ''image/jpeg''),
      (''.jpeg'', ''image/jpeg''),
      (''.gif'', ''image/gif''),
      (''.svg'', ''image/svg+xml''),
      (''.ico'', ''image/x-icon''),
      (''.pdf'', ''application/pdf''),
      (''.txt'', ''text/plain''),
      (''.xml'', ''application/xml'')]"

definition get_content_type :: "string \<Rightarrow> string" where
  "get_content_type filename =
     (let ext = str_lower (splitext_ext filename)
      in case map_of content_types ext of
           Some t \<Rightarrow> t
         | None \<Rightarrow> ''binary/octet-stream'')"


section \<open>The world outside the program\<close>

text \<open>
  The deployer talks to the cloud provider through SDK clients, to the local file system,
  the clock and the terminal. None of that is code of the program: it is a parameter of
  the model, a record of stub functions. Every stub sees the trace of what the program
  has done so far, so that an answer may depend on earlier calls (a stack exists once it
  has been created, a file is listed once it has been written).
\<close>

text \<open>
  Exceptions. \<open>ClientError code text\<close> is botocore's \<open>ClientError\<close> with
  \<open>e.response['Error']['Code'] = code\<close> and \<open>str(e) = text\<close>; \<open>WaiterError\<close> and
  \<open>NoCredentialsError\<close> are botocore's exceptions of these names, which are not
  \<open>ClientError\<close>s; \<open>OtherError\<close> is any other subclass of \<open>Exception\<close>. Each carries its
  \<open>str(e)\<close>.
\<close>

datatype exn =
    ClientError string string
  | WaiterError string
  | NoCredentialsError string
  | OtherError string

fun str_exn :: "exn \<Rightarrow> string" where
  "str_exn (ClientError code text) = text"
| "str_exn (WaiterError text) = text"
| "str_exn (NoCredentialsError text) = text"
| "str_exn (OtherError text) = text"

text \<open>The messages of the five \<open>print_*\<close> helpers (bare \<open>print\<close> calls, which only
  write blank lines, help and lists, are not recorded).\<close>

datatype msg =
    Status string
  | Info string
  | Warning string
  | Error string
  | Header string

datatype waiter = StackCreateComplete | StackUpdateComplete | StackDeleteComplete

text \<open>The calls that leave the program. \<open>UpdateStack\<close> and \<open>CreateStack\<close> carry
  \<open>StackName\<close>, \<open>TemplateBody\<close>, \<open>Parameters\<close> and \<open>Capabilities\<close>; \<open>UploadFile\<close> the local
  path, the bucket, the key and the \<open>ContentType\<close>; \<open>CreateInvalidation\<close> the
  \<open>DistributionId\<close>, and \<open>Quantity\<close>, \<open>Items\<close> and \<open>CallerReference\<close> of the batch.\<close>

datatype call =
    InitClients
  | GetCallerIdentity
  | DescribeStacks string
  | UpdateStack string string "(string \<times> string) list" "string list"
  | CreateStack string string "(string \<times> string) list" "string list"
  | DeleteStack string
  | WaiterPoll waiter string
  | Sleep nat
  | UploadFile string string string string
  | CreateInvalidation string nat "string list" string
  | HeadBucket string
  | ListObjectsV2 string
  | DeleteObjects string "string list"
  | MkTemp
  | WriteFile string string
  | RmTree string
  | ReadInput string

datatype event = Call call | Out msg

type_synonym trace = "event list"

text \<open>What one poll of a waiter finds: the terminal success status of the waiter, one of
  its terminal failure statuses, or a status that is not terminal.\<close>

datatype poll_state = TerminalSuccess | TerminalFailure | NotTerminal

text \<open>A page of \<open>list_objects_v2\<close> as the paginator yields it: the fetch raises, or the page
  comes with or without a \<open>Contents\<close> list of keys.\<close>

datatype page = FetchFails exn | Page "string list option"

text \<open>
  \<open>raises\<close>: the exception a call raises, \<open>None\<close> when it succeeds. The other fields are the
  values of successful calls: \<open>caller_identity\<close> the \<open>Account\<close> and \<open>Arn\<close> of
  \<open>get_caller_identity\<close>; \<open>stacks\<close> the \<open>Stacks\<close> list of \<open>describe_stacks\<close>, each stack
  reduced to its optional \<open>Outputs\<close> list of key and value; \<open>poll\<close> what a waiter's poll
  finds; \<open>pages\<close> the pages of a bucket listing (a finite sequence); \<open>time_time\<close> the clock
  in seconds; \<open>path_exists\<close>, \<open>os_walk\<close>, \<open>path_join\<close> and \<open>path_relpath\<close> the functions of
  \<open>os\<close> and \<open>os.path\<close>, which depend on the platform; \<open>mkdtemp\<close> the path of a new temporary
  directory; \<open>input_line\<close> what the operator types. \<open>template_body\<close> is the literal text that
  \<open>get_cloudformation_template\<close> returns, and \<open>html_head\<close>, \<open>html_middle\<close>, \<open>html_tail\<close> are
  the three literal pieces of the sample page around its two \<open>{domain}\<close> fields.
\<close>

record env =
  raises :: "trace \<Rightarrow> call \<Rightarrow> exn option"
  caller_identity :: "trace \<Rightarrow> string \<times> string"
  stacks :: "trace \<Rightarrow> string \<Rightarrow> (string \<times> string) list option list"
  poll :: "trace \<Rightarrow> waiter \<Rightarrow> string \<Rightarrow> poll_state"
  pages :: "trace \<Rightarrow> string \<Rightarrow> page list"
  time_time :: "trace \<Rightarrow> rat"
  path_exists :: "trace \<Rightarrow> string \<Rightarrow> bool"
  os_walk :: "trace \<Rightarrow> string \<Rightarrow> (string \<times> string list \<times> string list) list"
  path_join :: "string \<Rightarrow> string \<Rightarrow> string"
  path_relpath :: "string \<Rightarrow> string \<Rightarrow> string"
  mkdtemp :: "trace \<Rightarrow> string"
  input_line :: "trace \<Rightarrow> string"
  template_body :: string
  html_head :: string
  html_middle :: string
  html_tail :: string

text \<open>A call goes into the trace whether it succeeds or raises.\<close>

definition invoke :: "env \<Rightarrow> call \<Rightarrow> trace \<Rightarrow> exn option \<times> trace" where
  "invoke e c tr = (raises e tr c, tr @ [Call c])"

definition say :: "msg \<Rightarrow> trace \<Rightarrow> trace" where
  "say m tr = tr @ [Out m]"

text \<open>\<open>int(x)\<close> of a float truncates towards zero.\<close>

definition py_int :: "rat \<Rightarrow> int" where
  "py_int x = (if x \<ge> 0 then \<lfloor>x\<rfloor> else \<lceil>x\<rceil>)"

definition apostrophe :: char where
  "apostrophe = char_of (39::nat)"

text \<open>
  Modelled from the spec: the waiter is the SDK's polling helper, which is not among the
  sources; the program only names it and passes \<open>Delay\<close> and \<open>MaxAttempts\<close>. Following the
  glossary and section 4.3, it polls the stack, returns when the poll reports the
  terminal success status, raises \<open>WaiterError\<close> on a terminal failure status or when the
  number of polls has reached \<open>MaxAttempts\<close>, and otherwise sleeps \<open>Delay\<close> seconds and polls
  again.
\<close>

function waiter_loop ::
  "env \<Rightarrow> waiter \<Rightarrow> string \<Rightarrow> nat \<Rightarrow> nat \<Rightarrow> nat \<Rightarrow> trace \<Rightarrow> exn option \<times> trace" where
  "waiter_loop e w stack_name delay max_attempts num_attempts tr =
     (let tr1 = tr @ [Call (WaiterPoll w stack_name)]
      in case poll e tr w stack_name of
           TerminalSuccess \<Rightarrow> (None, tr1)
         | TerminalFailure \<Rightarrow>
             (Some (WaiterError ''Waiter encountered a terminal failure state''), tr1)
         | NotTerminal \<Rightarrow>
             if num_attempts + 1 \<ge> max_attempts
             then (Some (WaiterError ''Max attempts exceeded''), tr1)
             else waiter_loop e w stack_name delay max_attempts (num_attempts + 1)
                    (tr1 @ [Call (Sleep delay)]))"
  by pat_completeness auto
termination
  by (relation "measure (\<lambda>(e, w, stack_name, delay, max_attempts, num_attempts, tr).
        max_attempts - num_attempts)") auto

declare waiter_loop.simps [simp del]

definition waiter_wait ::
  "env \<Rightarrow> waiter \<Rightarrow> string \<Rightarrow> nat \<Rightarrow> nat \<Rightarrow> trace \<Rightarrow> exn option \<times> trace" where
  "waiter_wait e w stack_name delay max_attempts tr =
     waiter_loop e w stack_name delay max_attempts 0 tr"


section \<open>The methods of \<open>AWSWebsiteDeployer\<close>\<close>

text \<open>
  A method takes the trace and returns its result with the extended trace. A method that
  can let an exception escape returns \<open>Some e\<close> (or \<open>Inl e\<close>) for it.
\<close>

text \<open>\<open>__init__\<close>: \<open>NoCredentialsError\<close> ends the process with status 1; the result is
  the exit status, or the exception that escapes.\<close>

datatype outcome = Exit nat | Returned | Uncaught exn

definition init_deployer :: "env \<Rightarrow> trace \<Rightarrow> outcome option \<times> trace" where
  "init_deployer e tr =
     (case invoke e InitClients tr of
        (None, tr1) \<Rightarrow> (None, tr1)
      | (Some (NoCredentialsError text), tr1) \<Rightarrow>
          (Some (Exit 1), say (Error ''AWS credentials not configured'') tr1)
      | (Some x, tr1) \<Rightarrow> (Some (Uncaught x), tr1))"

text \<open>\<open>validate_domain\<close>: \<open>Some 1\<close> is \<open>sys.exit(1)\<close>.\<close>

definition validate_domain :: "string \<Rightarrow> trace \<Rightarrow> nat option \<times> trace" where
  "validate_domain domain tr =
     (if \<not> re_match domain_pattern domain
      then (Some 1, say (Error (''Invalid domain name format: '' @ domain)) tr)
      else (None, tr))"

definition check_credentials :: "env \<Rightarrow> trace \<Rightarrow> bool \<times> trace" where
  "check_credentials e tr =
     (case invoke e GetCallerIdentity tr of
        (None, tr1) \<Rightarrow>
          (let (account, arn) = caller_identity e tr
           in (True, say (Info (''User/Role: '' @ arn))
                       (say (Info (''Account ID: '' @ account))
                         (say (Status ''AWS credentials validated'') tr1))))
      | (Some x, tr1) \<Rightarrow>
          (False, say (Error (''AWS credentials invalid: '' @ str_exn x)) tr1))"

text \<open>The arguments that \<open>create_stack\<close> and \<open>update_stack\<close> share.\<close>

definition stack_parameters :: "string \<Rightarrow> (string \<times> string) list" where
  "stack_parameters domain = [(''DomainName'', domain)]"

definition stack_capabilities :: "string list" where
  "stack_capabilities = [''CAPABILITY_IAM'']"

datatype operation = UPDATE | CREATE

text \<open>The handler of the inner \<open>try\<close> of \<open>deploy_stack\<close>: it takes \<open>ClientError\<close> only; an
  exception that \<open>create_stack\<close> raises inside the handler leaves it.\<close>

definition on_client_error ::
  "env \<Rightarrow> string \<Rightarrow> exn \<Rightarrow> trace \<Rightarrow> (exn + operation) \<times> trace" where
  "on_client_error e domain x tr =
     (case x of
        ClientError code text \<Rightarrow>
          if str_contains ''does not exist'' (str_exn x)
          then (case invoke e (CreateStack (get_stack_name domain) (template_body e)
                                 (stack_parameters domain) stack_capabilities)
                       (say (Info ''Creating new stack...'') tr) of
                  (None, tr1) \<Rightarrow> (Inr CREATE, tr1)
                | (Some y, tr1) \<Rightarrow> (Inl y, tr1))
          else (Inl x, tr)
      | _ \<Rightarrow> (Inl x, tr))"

text \<open>The inner \<open>try\<close> of \<open>deploy_stack\<close>: \<open>describe_stacks\<close>, then \<open>update_stack\<close>, both
  under the handler.\<close>

definition create_or_update :: "env \<Rightarrow> string \<Rightarrow> trace \<Rightarrow> (exn + operation) \<times> trace" where
  "create_or_update e domain tr =
     (case invoke e (DescribeStacks (get_stack_name domain)) tr of
        (None, tr1) \<Rightarrow>
          (case invoke e (UpdateStack (get_stack_name domain) (template_body e)
                            (stack_parameters domain) stack_capabilities)
                  (say (Info ''Stack exists, updating...'') tr1) of
             (None, tr2) \<Rightarrow> (Inr UPDATE, tr2)
           | (Some x, tr2) \<Rightarrow> on_client_error e domain x tr2)
      | (Some x, tr1) \<Rightarrow> on_client_error e domain x tr1)"

definition deploy_stack :: "env \<Rightarrow> string \<Rightarrow> trace \<Rightarrow> bool \<times> trace" where
  "deploy_stack e domain tr =
     (case create_or_update e domain
             (say (Header (''Deploying AWS Infrastructure for '' @ domain @ ''...'')) tr) of
        (Inl x, tr1) \<Rightarrow>
          (False, say (Error (''Stack deployment failed: '' @ str_exn x)) tr1)
      | (Inr operation, tr1) \<Rightarrow>
          (case waiter_wait e
                  (if operation = CREATE then StackCreateComplete else StackUpdateComplete)
                  (get_stack_name domain) 30 120
                  (say (Warning ''This may take 10-15 minutes for SSL certificate validation...'')
                    (say (Info ''Waiting for stack operation to complete...'') tr1)) of
             (None, tr2) \<Rightarrow> (True, say (Status ''Infrastructure deployed successfully'') tr2)
           | (Some x, tr2) \<Rightarrow>
               (False, say (Error (''Stack deployment failed: '' @ str_exn x)) tr2)))"

text \<open>A Python dictionary of strings, in insertion order; \<open>d[k] = v\<close>.\<close>

definition dict_set :: "string \<Rightarrow> string \<Rightarrow> (string \<times> string) list \<Rightarrow> (string \<times> string) list" where
  "dict_set k v d =
     (if k \<in> fst ` set d then map (\<lambda>(k', v'). if k' = k then (k', v) else (k', v')) d
      else d @ [(k, v)])"

text \<open>\<open>get_stack_outputs\<close>: \<open>response['Stacks'][0]\<close> of an empty list raises
  \<open>IndexError\<close>, which the method catches like every exception.\<close>

definition get_stack_outputs :: "env \<Rightarrow> string \<Rightarrow> trace \<Rightarrow> (string \<times> string) list \<times> trace" where
  "get_stack_outputs e domain tr =
     (case invoke e (DescribeStacks (get_stack_name domain)) tr of
        (Some x, tr1) \<Rightarrow>
          ([], say (Error (''Failed to get stack outputs: '' @ str_exn x)) tr1)
      | (None, tr1) \<Rightarrow>
          (case stacks e tr (get_stack_name domain) of
             [] \<Rightarrow> ([], say (Error (''Failed to get stack outputs: '' @ ''list index out of range'')) tr1)
           | stack # _ \<Rightarrow>
               (foldl (\<lambda>d (k, v). dict_set k v d) []
                  (case stack of None \<Rightarrow> [] | Some outputs \<Rightarrow> outputs), tr1)))"

definition dict_get :: "(string \<times> string) list \<Rightarrow> string \<Rightarrow> string \<Rightarrow> string" where
  "dict_get d k dflt = (case map_of d k of Some v \<Rightarrow> v | None \<Rightarrow> dflt)"

definition display_stack_info :: "env \<Rightarrow> string \<Rightarrow> trace \<Rightarrow> trace" where
  "display_stack_info e domain tr =
     (case get_stack_outputs e domain tr of
        (outputs, tr1) \<Rightarrow>
          if outputs = [] then tr1
          else say (Warning ''DNS propagation can take 24-48 hours'')
                (say (Info (''CloudFront Distribution ID: '' @
                             dict_get outputs ''CloudFrontDistributionId'' ''N/A''))
                  (say (Info (''S3 Bucket: '' @ domain))
                    (say (Info (''Website URL: '' @ dict_get outputs ''WebsiteURL'' ''N/A''))
                      (say (Header ''Deployment Complete!'') tr1)))))"

text \<open>The inner loop of \<open>upload_files\<close>, over the files of one directory of the walk, and
  the outer loop, over the directories. An exception ends both.\<close>

fun upload_dir ::
  "env \<Rightarrow> string \<Rightarrow> string \<Rightarrow> string \<Rightarrow> string list \<Rightarrow> trace \<Rightarrow> exn option \<times> trace" where
  "upload_dir e domain folder_path root_dir [] tr = (None, tr)"
| "upload_dir e domain folder_path root_dir (file # files) tr =
     (let local_path = path_join e root_dir file;
          relative_path = path_relpath e local_path folder_path;
          s3_key = str_replace [backslash] ''/'' relative_path;
          content_type = get_content_type file
      in case invoke e (UploadFile local_path domain s3_key content_type) tr of
           (Some x, tr1) \<Rightarrow> (Some x, tr1)
         | (None, tr1) \<Rightarrow>
             upload_dir e domain folder_path root_dir files
               (say (Info (''Uploaded: '' @ s3_key)) tr1))"

fun upload_walk ::
  "env \<Rightarrow> string \<Rightarrow> string \<Rightarrow> (string \<times> string list \<times> string list) list \<Rightarrow> trace
     \<Rightarrow> exn option \<times> trace" where
  "upload_walk e domain folder_path [] tr = (None, tr)"
| "upload_walk e domain folder_path ((root_dir, dirs, files) # rest) tr =
     (case upload_dir e domain folder_path root_dir files tr of
        (Some x, tr1) \<Rightarrow> (Some x, tr1)
      | (None, tr1) \<Rightarrow> upload_walk e domain folder_path rest tr1)"

text \<open>The part of \<open>upload_files\<close> after the loop: the invalidation. \<open>if cloudfront_id\<close>
  holds for a string that is present and not empty.\<close>

definition invalidate_cache :: "env \<Rightarrow> string \<Rightarrow> trace \<Rightarrow> exn option \<times> trace" where
  "invalidate_cache e domain tr =
     (case get_stack_outputs e domain tr of
        (outputs, tr1) \<Rightarrow>
          (case map_of outputs ''CloudFrontDistributionId'' of
             None \<Rightarrow> (None, tr1)
           | Some cloudfront_id \<Rightarrow>
               if cloudfront_id = [] then (None, tr1)
               else (case invoke e (CreateInvalidation cloudfront_id 1 [''/*'']
                                      (str_int (py_int (time_time e
                                         (say (Info ''Invalidating CloudFront cache...'') tr1)))))
                            (say (Info ''Invalidating CloudFront cache...'') tr1) of
                       (Some x, tr2) \<Rightarrow> (Some x, tr2)
                     | (None, tr2) \<Rightarrow> (None, say (Status ''CloudFront cache invalidated'') tr2))))"

definition upload_files :: "env \<Rightarrow> string \<Rightarrow> string \<Rightarrow> trace \<Rightarrow> bool \<times> trace" where
  "upload_files e domain folder_path tr =
     (if \<not> path_exists e tr folder_path
      then (False, say (Error (''Website folder '' @ [apostrophe] @ folder_path @ [apostrophe]
                                @ '' does not exist'')) tr)
      else
        (case upload_walk e domain folder_path (os_walk e tr folder_path)
                (say (Header (''Uploading website files from '' @ folder_path @ ''...'')) tr) of
           (Some x, tr1) \<Rightarrow> (False, say (Error (''File upload failed: '' @ str_exn x)) tr1)
         | (None, tr1) \<Rightarrow>
             (case invalidate_cache e domain (say (Status ''Files uploaded successfully'') tr1) of
                (Some x, tr2) \<Rightarrow> (False, say (Error (''File upload failed: '' @ str_exn x)) tr2)
              | (None, tr2) \<Rightarrow> (True, tr2))))"

definition html_content :: "env \<Rightarrow> string \<Rightarrow> string" where
  "html_content e domain = html_head e @ domain @ html_middle e @ domain @ html_tail e"

text \<open>\<open>create_sample_website\<close>: the temporary directory is removed when the \<open>with\<close> block
  is left, also by an exception; the result of \<open>upload_files\<close> is not looked at.\<close>

definition create_sample_website :: "env \<Rightarrow> string \<Rightarrow> trace \<Rightarrow> exn option \<times> trace" where
  "create_sample_website e domain tr =
     (case invoke e MkTemp (say (Info ''Creating sample website...'') tr) of
        (Some x, tr1) \<Rightarrow> (Some x, tr1)
      | (None, tr1) \<Rightarrow>
          (let temp_dir = mkdtemp e (say (Info ''Creating sample website...'') tr)
           in case invoke e (WriteFile (path_join e temp_dir ''index.html'')
                               (html_content e domain)) tr1 of
                (Some x, tr2) \<Rightarrow>
                  (case invoke e (RmTree temp_dir) tr2 of
                     (Some y, tr3) \<Rightarrow> (Some y, tr3)
                   | (None, tr3) \<Rightarrow> (Some x, tr3))
              | (None, tr2) \<Rightarrow>
                  (case upload_files e domain temp_dir tr2 of
                     (uploaded, tr3) \<Rightarrow>
                       (case invoke e (RmTree temp_dir) tr3 of
                          (Some y, tr4) \<Rightarrow> (Some y, tr4)
                        | (None, tr4) \<Rightarrow> (None, say (Status ''Sample website deployed'') tr4)))))"

text \<open>Emptying one bucket: the body of the loop of \<open>empty_s3_buckets\<close>. The page loop
  first, which an exception ends.\<close>

fun delete_pages :: "env \<Rightarrow> string \<Rightarrow> page list \<Rightarrow> trace \<Rightarrow> exn option \<times> trace" where
  "delete_pages e bucket_name [] tr = (None, tr)"
| "delete_pages e bucket_name (FetchFails x # ps) tr =
     (Some x, tr @ [Call (ListObjectsV2 bucket_name)])"
| "delete_pages e bucket_name (Page None # ps) tr =
     delete_pages e bucket_name ps (tr @ [Call (ListObjectsV2 bucket_name)])"
| "delete_pages e bucket_name (Page (Some keys) # ps) tr =
     (case invoke e (DeleteObjects bucket_name keys) (tr @ [Call (ListObjectsV2 bucket_name)]) of
        (Some x, tr1) \<Rightarrow> (Some x, tr1)
      | (None, tr1) \<Rightarrow> delete_pages e bucket_name ps tr1)"

definition try_empty_bucket :: "env \<Rightarrow> string \<Rightarrow> trace \<Rightarrow> exn option \<times> trace" where
  "try_empty_bucket e bucket_name tr =
     (case invoke e (HeadBucket bucket_name) tr of
        (Some x, tr1) \<Rightarrow> (Some x, tr1)
      | (None, tr1) \<Rightarrow>
          (case delete_pages e bucket_name
                  (pages e (say (Info (''Emptying bucket: '' @ bucket_name)) tr1) bucket_name)
                  (say (Info (''Emptying bucket: '' @ bucket_name)) tr1) of
             (Some x, tr2) \<Rightarrow> (Some x, tr2)
           | (None, tr2) \<Rightarrow> (None, say (Status (''Bucket '' @ bucket_name @ '' emptied'')) tr2)))"

definition empty_bucket :: "env \<Rightarrow> string \<Rightarrow> trace \<Rightarrow> exn option \<times> trace" where
  "empty_bucket e bucket_name tr =
     (case try_empty_bucket e bucket_name tr of
        (None, tr1) \<Rightarrow> (None, tr1)
      | (Some (ClientError code text), tr1) \<Rightarrow>
          if code = ''404''
          then (None, say (Info (''Bucket '' @ bucket_name @ '' does not exist'')) tr1)
          else (None, say (Warning (''Error emptying bucket '' @ bucket_name @ '': '' @ text)) tr1)
      | (Some x, tr1) \<Rightarrow> (Some x, tr1))"

fun empty_buckets :: "env \<Rightarrow> string list \<Rightarrow> trace \<Rightarrow> exn option \<times> trace" where
  "empty_buckets e [] tr = (None, tr)"
| "empty_buckets e (bucket_name # buckets) tr =
     (case empty_bucket e bucket_name tr of
        (Some x, tr1) \<Rightarrow> (Some x, tr1)
      | (None, tr1) \<Rightarrow> empty_buckets e buckets tr1)"

definition empty_s3_buckets :: "env \<Rightarrow> string \<Rightarrow> trace \<Rightarrow> exn option \<times> trace" where
  "empty_s3_buckets e domain tr =
     empty_buckets e [domain, ''www.'' @ domain] (say (Info ''Emptying S3 buckets...'') tr)"

text \<open>The \<open>try\<close> block of \<open>cleanup_stack\<close>.\<close>

definition delete_and_wait :: "env \<Rightarrow> string \<Rightarrow> trace \<Rightarrow> exn option \<times> trace" where
  "delete_and_wait e stack_name tr =
     (case invoke e (DescribeStacks stack_name) tr of
        (Some x, tr1) \<Rightarrow> (Some x, tr1)
      | (None, tr1) \<Rightarrow>
          (case invoke e (DeleteStack stack_name)
                  (say (Info (''Deleting CloudFormation stack: '' @ stack_name)) tr1) of
             (Some x, tr2) \<Rightarrow> (Some x, tr2)
           | (None, tr2) \<Rightarrow>
               (case waiter_wait e StackDeleteComplete stack_name 30 60
                       (say (Warning ''This may take several minutes...'')
                         (say (Info ''Waiting for stack deletion to complete...'') tr2)) of
                  (Some x, tr3) \<Rightarrow> (Some x, tr3)
                | (None, tr3) \<Rightarrow> (None, say (Status ''Stack deleted successfully'') tr3))))"

text \<open>\<open>cleanup_stack\<close>: \<open>Inr\<close> is the value returned, \<open>Inl\<close> an exception that escapes (the
  handler takes \<open>ClientError\<close> only, and \<open>empty_s3_buckets\<close> is called outside the
  \<open>try\<close>).\<close>

definition cleanup_stack :: "env \<Rightarrow> string \<Rightarrow> trace \<Rightarrow> (exn + bool) \<times> trace" where
  "cleanup_stack e domain tr =
     (case empty_s3_buckets e domain
             (say (Header (''Cleaning up AWS resources for '' @ domain @ ''...'')) tr) of
        (Some x, tr1) \<Rightarrow> (Inl x, tr1)
      | (None, tr1) \<Rightarrow>
          (case delete_and_wait e (get_stack_name domain) tr1 of
             (None, tr2) \<Rightarrow> (Inr True, tr2)
           | (Some (ClientError code text), tr2) \<Rightarrow>
               if str_contains ''does not exist'' text
               then (Inr True, say (Info (''CloudFormation stack '' @ get_stack_name domain
                                          @ '' does not exist'')) tr2)
               else (Inr False, say (Error (''Stack deletion failed: '' @ text)) tr2)
           | (Some x, tr2) \<Rightarrow> (Inl x, tr2)))"

section \<open>The commands of \<open>main\<close>\<close>

text \<open>
  What \<open>main\<close> does before it looks at the command (the parsed arguments are given):
  the deployer is made, the domain validated, the credentials checked. \<open>Some\<close> is the
  end of the process there.
\<close>

definition main_prelude :: "env \<Rightarrow> string \<Rightarrow> trace \<Rightarrow> outcome option \<times> trace" where
  "main_prelude e domain tr =
     (case init_deployer e (say (Header ''AWS Static Website Deployer - Python Edition'') tr) of
        (Some out, tr1) \<Rightarrow> (Some out, tr1)
      | (None, tr1) \<Rightarrow>
          (case validate_domain domain tr1 of
             (Some status, tr2) \<Rightarrow> (Some (Exit status), tr2)
           | (None, tr2) \<Rightarrow>
               (case check_credentials e tr2 of
                  (False, tr3) \<Rightarrow> (Some (Exit 1), tr3)
                | (True, tr3) \<Rightarrow> (None, tr3))))"

text \<open>\<open>main\<close> for the command \<open>deploy\<close>; \<open>website_folder\<close> is \<open>None\<close> when the option is not
  given, and \<open>if args.website_folder\<close> is false for the empty string as well.\<close>

definition main_deploy :: "env \<Rightarrow> string \<Rightarrow> string option \<Rightarrow> trace \<Rightarrow> outcome \<times> trace" where
  "main_deploy e domain website_folder tr =
     (case main_prelude e domain tr of
        (Some out, tr1) \<Rightarrow> (out, tr1)
      | (None, tr1) \<Rightarrow>
          (case deploy_stack e domain tr1 of
             (False, tr2) \<Rightarrow> (Exit 1, tr2)
           | (True, tr2) \<Rightarrow>
               (let tr3 = display_stack_info e domain tr2
                in if website_folder \<noteq> None \<and> website_folder \<noteq> Some []
                   then (case upload_files e domain (the website_folder) tr3 of
                           (False, tr4) \<Rightarrow> (Exit 1, tr4)
                         | (True, tr4) \<Rightarrow>
                             (Returned, say (Info ''Next steps:'')
                                          (say (Header ''Deployment Complete!'') tr4)))
                   else (case create_sample_website e domain
                                (say (Info ''No website folder specified, creating sample website...'')
                                   tr3) of
                           (Some x, tr4) \<Rightarrow> (Uncaught x, tr4)
                         | (None, tr4) \<Rightarrow>
                             (Returned, say (Info ''Next steps:'')
                                          (say (Header ''Deployment Complete!'') tr4))))))"

text \<open>\<open>main\<close> for the command \<open>cleanup\<close>.\<close>

definition main_cleanup :: "env \<Rightarrow> string \<Rightarrow> trace \<Rightarrow> outcome \<times> trace" where
  "main_cleanup e domain tr =
     (case main_prelude e domain tr of
        (Some out, tr1) \<Rightarrow> (out, tr1)
      | (None, tr1) \<Rightarrow>
          (let tr2 = say (Warning (''WARNING: This will permanently delete all AWS resources for ''
                                   @ domain)) tr1;
               confirmation = input_line e tr2;
               tr3 = tr2 @ [Call (ReadInput (''Are you sure you want to continue? (type '' @ [apostrophe] @ ''yes''
                        @ [apostrophe] @ '' to confirm): ''))]
           in if confirmation \<noteq> ''yes''
              then (Exit 0, say (Info ''Cleanup cancelled'') tr3)
              else (case cleanup_stack e domain tr3 of
                      (Inl x, tr4) \<Rightarrow> (Uncaught x, tr4)
                    | (Inr False, tr4) \<Rightarrow> (Exit 1, tr4)
                    | (Inr True, tr4) \<Rightarrow> (Returned, say (Status ''Cleanup completed!'') tr4))))"


section \<open>Observations on traces\<close>

fun is_poll :: "event \<Rightarrow> bool" where
  "is_poll (Call (WaiterPoll w stack_name)) = True"
| "is_poll _ = False"

fun is_sleep :: "event \<Rightarrow> bool" where
  "is_sleep (Call (Sleep delay)) = True"
| "is_sleep _ = False"

fun is_submission :: "event \<Rightarrow> bool" where
  "is_submission (Call (CreateStack n t p c)) = True"
| "is_submission (Call (UpdateStack n t p c)) = True"
| "is_submission _ = False"

fun is_upload :: "event \<Rightarrow> bool" where
  "is_upload (Call (UploadFile l b k c)) = True"
| "is_upload _ = False"

fun is_invalidation :: "event \<Rightarrow> bool" where
  "is_invalidation (Call (CreateInvalidation d q i r)) = True"
| "is_invalidation _ = False"

section \<open>Properties\<close>

subsection \<open>Stack name\<close>

lemma replace_single_char:
  "replace_nonempty [a] [b] 0 s = map (\<lambda>c. if c = a then b else c) s"
  by (induction s) auto

text \<open>
  Claim C9. The stack name is a function of the domain alone: it is the domain with every
  \<open>.\<close> replaced by \<open>-\<close>, after the prefix \<open>website-\<close>; \<open>example.com\<close> gives
  \<open>website-example-com\<close>.
\<close>

theorem get_stack_name_replaces_dots:
  "get_stack_name domain =
     ''website-'' @ map (\<lambda>c. if c = CHR ''.'' then CHR ''-'' else c) domain
   \<and> get_stack_name ''example.com'' = ''website-example-com''"
  by (simp add: get_stack_name_def str_replace_def replace_single_char)

subsection \<open>Content type\<close>

text \<open>
  Claim C8. The content type is determined by the extension of the file name (lower-cased,
  as the code does before the lookup) through the fixed table; an extension that is not a
  key of the table gives \<open>binary/octet-stream\<close>, and the function has no other values
  than those of the table and that default. \<open>index.html\<close> gives \<open>text/html\<close>,
  \<open>style.css\<close> gives \<open>text/css\<close>, \<open>photo.unknownext\<close> gives the default.
\<close>

theorem get_content_type_by_extension:
  "get_content_type f =
     (case map_of content_types (str_lower (splitext_ext f)) of
        Some t \<Rightarrow> t | None \<Rightarrow> ''binary/octet-stream'')
   \<and> (str_lower (splitext_ext f) \<notin> fst ` set content_types \<longrightarrow>
        get_content_type f = ''binary/octet-stream'')
   \<and> (splitext_ext f = splitext_ext g \<longrightarrow> get_content_type f = get_content_type g)
   \<and> get_content_type f \<in> snd ` set content_types \<union> {''binary/octet-stream''}
   \<and> get_content_type ''index.html'' = ''text/html''
   \<and> get_content_type ''style.css'' = ''text/css''
   \<and> get_content_type ''photo.unknownext'' = ''binary/octet-stream''"
proof -
  have a: "get_content_type f =
     (case map_of content_types (str_lower (splitext_ext f)) of
        Some t \<Rightarrow> t | None \<Rightarrow> ''binary/octet-stream'')"
    by (simp add: get_content_type_def)
  have b: "str_lower (splitext_ext f) \<notin> fst ` set content_types \<longrightarrow>
        get_content_type f = ''binary/octet-stream''"
  proof
    assume "str_lower (splitext_ext f) \<notin> fst ` set content_types"
    then have "map_of content_types (str_lower (splitext_ext f)) = None"
      by (simp add: map_of_eq_None_iff)
    then show "get_content_type f = ''binary/octet-stream''"
      by (simp add: a)
  qed
  have c: "splitext_ext f = splitext_ext g \<longrightarrow> get_content_type f = get_content_type g"
    by (simp add: get_content_type_def)
  have d: "get_content_type f \<in> snd ` set content_types \<union> {''binary/octet-stream''}"
    unfolding a by (auto split: option.splits dest: map_of_SomeD intro: rev_image_eqI)
  have e: "get_content_type ''index.html'' = ''text/html''"
    "get_content_type ''style.css'' = ''text/css''"
    "get_content_type ''photo.unknownext'' = ''binary/octet-stream''"
    by (simp_all add: get_content_type_def splitext_ext_def content_types_def str_lower_def lower_char_def)
  show ?thesis using a b c d e by blast
qed

theorem get_content_type_by_extension_witness:
  "str_lower (splitext_ext ''assets/Logo.PNG'') = ''.png''
   \<and> get_content_type ''assets/Logo.PNG'' = ''image/png''
   \<and> str_lower (splitext_ext ''archive.tar.gz'') \<notin> fst ` set content_types
   \<and> get_content_type ''archive.tar.gz'' = ''binary/octet-stream''
   \<and> splitext_ext ''a.css'' = splitext_ext ''b/c.d/e.css''
   \<and> get_content_type ''a.css'' = get_content_type ''b/c.d/e.css''"
proof -
  have h1: "str_lower (splitext_ext ''archive.tar.gz'') \<notin> fst ` set content_types"
    by (simp add: splitext_ext_def content_types_def str_lower_def lower_char_def)
  have h2: "splitext_ext ''a.css'' = splitext_ext ''b/c.d/e.css''"
    by (simp add: splitext_ext_def)
  have h3: "str_lower (splitext_ext ''assets/Logo.PNG'') = ''.png''"
    by code_simp
  have h4: "map_of content_types ''.png'' = Some ''image/png''"
    by (simp add: content_types_def)
  have c1: "get_content_type ''archive.tar.gz'' = ''binary/octet-stream''"
    using get_content_type_by_extension [of "''archive.tar.gz''" "''a.css''"] h1 by blast
  have c2: "get_content_type ''a.css'' = get_content_type ''b/c.d/e.css''"
    using get_content_type_by_extension [of "''a.css''" "''b/c.d/e.css''"] h2 by blast
  have "get_content_type ''assets/Logo.PNG'' =
     (case map_of content_types (str_lower (splitext_ext ''assets/Logo.PNG'')) of
        Some t \<Rightarrow> t | None \<Rightarrow> ''binary/octet-stream'')"
    using get_content_type_by_extension [of "''assets/Logo.PNG''" "''a.css''"] by blast
  then have c3: "get_content_type ''assets/Logo.PNG'' = ''image/png''"
    by (simp only: h3 h4 option.case)
  show ?thesis using h1 h2 h3 c1 c2 c3 by blast
qed

end
